theory Spec2Isabelle
  imports Main
begin

section \<open>The upload client of packages/server/lib/cloud/upload/uploadStream.ts\<close>

text \<open>
  The file exports \<open>HttpError\<close>, \<open>geometricRetry\<close> and \<open>uploadStream\<close>. \<open>uploadStream\<close>
  builds a retrying fetch (\<open>retryableFetch\<close>) whose retry decision is the closure
  \<open>retryOn\<close>; the closure also appends to the local array \<open>errorPromises\<close>. JavaScript
  numbers that count attempts, delays and HTTP statuses are natural numbers here.
  The arguments \<open>fileStream\<close> and \<open>fileSize\<close> only feed the request body and headers of
  the transport call, which is a parameter of the model, so they are left out.
\<close>

subsection \<open>Values\<close>

text \<open>
  A value thrown by a collaborator (the transport, the stall monitor, \<open>response.json()\<close>).
  The code never inspects such a value: it tests it for presence (every such value is
  truthy) and passes it on.
\<close>

datatype thrown = AbortError | Failure string

text \<open>
  What the \<open>try\<close> block of the enrichment promise (lines 83 to 88) meets when it reads the
  body: \<open>response.json()\<close> resolves with a value (\<open>Parsed\<close>: the value, as the text it is
  interpolated as), its promise rejects (\<open>Unparseable\<close>, handled by \<open>.catch\<close>), or an
  exception escapes into the \<open>catch (e)\<close> of line 89 (\<open>Throws\<close>).
\<close>

datatype json_result = Parsed string | Unparseable | Throws thrown

record response =
  status :: nat
  statusText :: string
  json :: json_result

text \<open>
  Rejection values. \<open>HttpError status statusText url message\<close> is an instance of the class
  of lines 12 to 20, \<open>message\<close> being what the constructor hands to \<open>super\<close>.
  \<open>Undefined\<close> is what \<open>errors[0]\<close> reads from an empty array.
\<close>

datatype error =
    HttpError nat string string string
  | Thrown thrown
  | AggregateError "error list" string
  | Undefined

datatype 'a promise = Fulfilled 'a | Rejected error

text \<open>What one call of the transport settles with.\<close>

datatype fetch_result = Response response | NetworkError thrown

subsection \<open>Number to string, as a template literal prints it\<close>

definition digit :: "nat \<Rightarrow> char" where
  "digit d = ''0123456789'' ! d"

function decimal :: "nat \<Rightarrow> string" where
  "decimal n = (if n < 10 then [digit n] else decimal (n div 10) @ [digit (n mod 10)])"
  by pat_completeness auto
termination
  by (relation "measure (\<lambda>n. n)") auto

declare decimal.simps [simp del]

subsection \<open>HttpError, geometricRetry, identity\<close>

definition new_HttpError :: "nat \<Rightarrow> string \<Rightarrow> string \<Rightarrow> error" where
  "new_HttpError st text url = HttpError st text url (decimal st @ '': '' @ text)"

definition geometricRetry :: "nat \<Rightarrow> nat" where
  "geometricRetry n = (n + 1) * 500"

definition identity :: "nat \<Rightarrow> nat" where
  "identity n = n"

subsection \<open>Options\<close>

text \<open>
  When, within an attempt, the monitor aborts its controller: while the transport call
  of the attempt is in flight, or after that call has settled (while the body of its
  response is still being read, or during the wait before the next attempt).
\<close>

datatype stall_phase = InFlight | AfterCall

text \<open>
  Modelled from the spec: the stall monitor (\<open>./StreamActivityMonitor\<close>, not among the
  sources). It "triggers cancellation when idle too long"; the signal, "once fired, is
  terminal (no reset)". \<open>stall\<close> is the index of the attempt during which the monitor
  aborts its controller (\<open>None\<close>: it never does), \<open>phase\<close> says when within that attempt,
  \<open>reason\<close> is what \<open>signal.reason\<close> holds from then on (\<open>None\<close>: a nullish reason).
\<close>

record StreamActivityMonitor =
  stall :: "nat option"
  phase :: stall_phase
  reason :: "thrown option"

record UploadStreamOptions =
  retryDelay :: "(nat \<Rightarrow> nat) option"
  activityMonitor :: "StreamActivityMonitor option"

text \<open>Line 42: \<open>options?.retryDelay ?? identity\<close>.\<close>

definition uploadStream_retryDelay :: "UploadStreamOptions option \<Rightarrow> nat \<Rightarrow> nat" where
  "uploadStream_retryDelay options =
     (case options of
        None \<Rightarrow> identity
      | Some opts \<Rightarrow> (case retryDelay opts of None \<Rightarrow> identity | Some f \<Rightarrow> f))"

text \<open>Line 43: \<open>options?.activityMonitor ?? undefined\<close>.\<close>

definition uploadStream_timeoutMonitor ::
  "UploadStreamOptions option \<Rightarrow> StreamActivityMonitor option" where
  "uploadStream_timeoutMonitor options =
     (case options of None \<Rightarrow> None | Some opts \<Rightarrow> activityMonitor opts)"

subsection \<open>The retry decision\<close>

definition retryOnErrorCodes :: "nat list" where
  "retryOnErrorCodes = [408, 429, 502, 503, 504]"

text \<open>
  Lines 82 to 92: the promise pushed for a response with an error status. Every path of
  the executor ends in \<open>resolve\<close>.
\<close>

definition errorPromise :: "response \<Rightarrow> string \<Rightarrow> error promise" where
  "errorPromise r destinationUrl =
     (case json r of
        Parsed v \<Rightarrow> Fulfilled (new_HttpError (status r) v destinationUrl)
      | Unparseable \<Rightarrow> Fulfilled (new_HttpError (status r) (statusText r) destinationUrl)
      | Throws e \<Rightarrow> Fulfilled (Thrown e))"

text \<open>
  Lines 79 to 116. \<open>error\<close> and \<open>response\<close> are \<open>None\<close> where the caller passes \<open>null\<close>.
  The result is the array \<open>errorPromises\<close> after the call, and the returned boolean.
  A status of 0 is falsy, hence the test \<open>status r \<noteq> 0\<close>.
\<close>

definition retryOn ::
  "string \<Rightarrow> nat \<Rightarrow> nat \<Rightarrow> thrown option \<Rightarrow> response option \<Rightarrow> error promise list
     \<Rightarrow> error promise list \<times> bool" where
  "retryOn destinationUrl attempt retries err resp errorPromises =
     (let recorded1 =
            (case resp of
               Some r \<Rightarrow>
                 if status r \<noteq> 0 \<and> status r \<ge> 400
                 then errorPromises @ [errorPromise r destinationUrl]
                 else errorPromises
             | None \<Rightarrow> errorPromises);
          recorded2 =
            (case err of
               Some e \<Rightarrow> recorded1 @ [Fulfilled (Thrown e)]
             | None \<Rightarrow> recorded1);
          isUnderRetryLimit = attempt < retries;
          isNetworkError = (err \<noteq> None);
          isRetryableHttpError =
            (case resp of
               Some r \<Rightarrow> status r \<noteq> 0 \<and> status r \<in> set retryOnErrorCodes
             | None \<Rightarrow> False)
      in (recorded2, isUnderRetryLimit \<and> (isNetworkError \<or> isRetryableHttpError)))"

subsection \<open>The transport and the cancellation signal\<close>

text \<open>
  Modelled from the spec: the abort signal of the monitor's controller (line 71), which
  is not among the sources. \<open>aborted\<close>: the signal has fired by the time the transport
  call of the given attempt settles, so that the call was cut off, or started on a signal
  already aborted. A signal that fires only after the call of an attempt has settled
  does not touch that call. Without a monitor there is no controller and no signal.
\<close>

definition aborted :: "StreamActivityMonitor option \<Rightarrow> nat \<Rightarrow> bool" where
  "aborted timeoutMonitor attempt =
     (case timeoutMonitor of
        None \<Rightarrow> False
      | Some m \<Rightarrow>
          (case stall m of
             None \<Rightarrow> False
           | Some k \<Rightarrow> (case phase m of InFlight \<Rightarrow> k \<le> attempt | AfterCall \<Rightarrow> k < attempt)))"

text \<open>
  Modelled from the spec: the signal has fired by the time the bodies of the responses
  up to the given attempt have been read, in whichever phase.
\<close>

definition fired :: "StreamActivityMonitor option \<Rightarrow> nat \<Rightarrow> bool" where
  "fired timeoutMonitor attempt =
     (case timeoutMonitor of
        None \<Rightarrow> False
      | Some m \<Rightarrow> (case stall m of None \<Rightarrow> False | Some k \<Rightarrow> k \<le> attempt))"

text \<open>
  Modelled from the spec: \<open>abortController?.signal.reason\<close> (line 155), read at a moment
  at which the signal has fired or not. The reason of a signal that has not fired is
  \<open>undefined\<close>.
\<close>

definition signal_reason :: "StreamActivityMonitor option \<Rightarrow> bool \<Rightarrow> thrown option" where
  "signal_reason timeoutMonitor hasFired =
     (case timeoutMonitor of
        None \<Rightarrow> None
      | Some m \<Rightarrow> if hasFired then reason m else None)"

text \<open>
  Modelled from the spec: the transport adapter (\<open>cross-fetch\<close>, an imported package). One
  call per attempt; \<open>net attempt\<close> is what the network makes of the call when nothing
  cancels it. The signal of line 136 is attached to every call, and the adapter honours
  it "by aborting the in-flight request and causing the call to fail with a
  cancellation-flagged error": a call fails when the signal fires while it is in flight
  or has fired before it starts. A call that has already returned its response is not
  undone by a later abort.
\<close>

definition crossFetch ::
  "(nat \<Rightarrow> fetch_result) \<Rightarrow> StreamActivityMonitor option \<Rightarrow> nat \<Rightarrow> fetch_result" where
  "crossFetch net timeoutMonitor attempt =
     (if aborted timeoutMonitor attempt then NetworkError AbortError else net attempt)"

subsection \<open>The retrying fetch\<close>

text \<open>
  Modelled from the spec: the attempt loop that \<open>fetchCreator\<close> (package
  \<open>fetch-retry-ts\<close>, imported at line 2) wraps around the transport. Attempts are
  "strictly sequential" and numbered from 0; after each one the loop "continues to the
  Retry Policy for a decision", which is the closure \<open>retryOn\<close> of the source, called as
  \<open>decide(attemptIndex, maxRetries, networkError, response)\<close> with \<open>maxRetries = 2\<close>
  (line 76) and with the response or the error of the attempt, the other being \<open>null\<close>.
\<close>

definition retryOnFn ::
  "string \<Rightarrow> nat \<Rightarrow> fetch_result \<Rightarrow> error promise list \<Rightarrow> error promise list \<times> bool" where
  "retryOnFn destinationUrl attempt outcome errorPromises =
     (case outcome of
        Response r \<Rightarrow> retryOn destinationUrl attempt 2 None (Some r) errorPromises
      | NetworkError e \<Rightarrow> retryOn destinationUrl attempt 2 (Some e) None errorPromises)"

text \<open>
  Modelled from the spec: the loop itself. While the decision is to retry, the next
  attempt follows; when it is to stop, the loop settles as the last attempt did. The
  result also gives the number of transport calls made and the array \<open>errorPromises\<close>
  as the calls of \<open>retryOn\<close> left it. The waits between attempts, computed by the
  delay function of line 77, are not part of the model.
\<close>

function extendedFetch ::
  "string \<Rightarrow> (nat \<Rightarrow> fetch_result) \<Rightarrow> StreamActivityMonitor option \<Rightarrow> nat
     \<Rightarrow> error promise list \<Rightarrow> fetch_result \<times> nat \<times> error promise list" where
  "extendedFetch destinationUrl net timeoutMonitor attempt errorPromises =
     (let outcome = crossFetch net timeoutMonitor attempt;
          decision = retryOnFn destinationUrl attempt outcome errorPromises
      in if snd decision
         then extendedFetch destinationUrl net timeoutMonitor (Suc attempt) (fst decision)
         else (outcome, Suc attempt, fst decision))"
  by pat_completeness auto
termination
  by (relation "measure (\<lambda>(u, n, m, attempt, ps). 3 - attempt)")
     (auto simp: retryOnFn_def retryOn_def Let_def split: fetch_result.splits)

declare extendedFetch.simps [simp del]

definition retryableFetch ::
  "string \<Rightarrow> (nat \<Rightarrow> fetch_result) \<Rightarrow> StreamActivityMonitor option
     \<Rightarrow> fetch_result \<times> nat \<times> error promise list" where
  "retryableFetch destinationUrl net timeoutMonitor =
     extendedFetch destinationUrl net timeoutMonitor 0 []"

subsection \<open>uploadStream\<close>

text \<open>
  \<open>Promise.all\<close> over promises that have settled: the array of the values when all are
  fulfilled, the first rejection otherwise.
\<close>

fun Promise_all :: "'a promise list \<Rightarrow> 'a list promise" where
  "Promise_all [] = Fulfilled []"
| "Promise_all (Rejected e # ps) = Rejected e"
| "Promise_all (Fulfilled v # ps) =
     (case Promise_all ps of Fulfilled vs \<Rightarrow> Fulfilled (v # vs) | Rejected e \<Rightarrow> Rejected e)"

text \<open>\<open>errors[0]\<close>: reading index 0 of an empty array gives \<open>undefined\<close>.\<close>

definition first_error :: "error list \<Rightarrow> error" where
  "first_error errors = (case errors of [] \<Rightarrow> Undefined | e # _ \<Rightarrow> e)"

text \<open>
  What a call of \<open>uploadStream\<close> leaves behind: how the returned promise settled, how many
  transport calls were made, and whether \<open>Promise.all(errorPromises)\<close> was awaited
  (line 142).
\<close>

record upload =
  settled :: "unit promise"
  attempts :: nat
  awaited :: bool

text \<open>
  Lines 119 to 160. \<open>net\<close> is the network the call runs against. The \<open>catch\<close> of line 154
  is entered when the retrying fetch rejects, right after its last call has failed, and
  also when \<open>Promise.all\<close> rejects, after the bodies have been read; it reads the signal
  at that moment. The branch of lines 141 to 153 does not read the signal.
\<close>

definition uploadStream ::
  "(nat \<Rightarrow> fetch_result) \<Rightarrow> string \<Rightarrow> UploadStreamOptions option \<Rightarrow> upload" where
  "uploadStream net destinationUrl options =
     (let timeoutMonitor = uploadStream_timeoutMonitor options;
          (result, calls, errorPromises) = retryableFetch destinationUrl net timeoutMonitor
      in case result of
           Response r \<Rightarrow>
             if status r \<ge> 400
             then (case Promise_all errorPromises of
                     Fulfilled errors \<Rightarrow>
                       \<lparr>settled = Rejected
                          (if length errors > 1
                           then AggregateError errors
                                  (decimal (length errors) @ '' errors encountered during upload'')
                           else first_error errors),
                        attempts = calls, awaited = True\<rparr>
                   | Rejected e \<Rightarrow>
                       \<lparr>settled = Rejected
                          (case signal_reason timeoutMonitor (fired timeoutMonitor (calls - 1)) of
                             Some R \<Rightarrow> Thrown R
                           | None \<Rightarrow> e),
                        attempts = calls, awaited = True\<rparr>)
             else \<lparr>settled = Fulfilled (), attempts = calls, awaited = False\<rparr>
         | NetworkError e \<Rightarrow>
             \<lparr>settled = Rejected (Thrown
                (case signal_reason timeoutMonitor (aborted timeoutMonitor (calls - 1)) of
                   Some R \<Rightarrow> R
                 | None \<Rightarrow> e)),
              attempts = calls, awaited = False\<rparr>)"

subsection \<open>Notions used to state the properties\<close>

text \<open>An attempt failed: the transport raised, or the response has an error status.\<close>

definition failed :: "fetch_result \<Rightarrow> bool" where
  "failed outcome = (case outcome of NetworkError e \<Rightarrow> True | Response r \<Rightarrow> 400 \<le> status r)"

text \<open>An attempt failed in a way the policy retries while attempts remain.\<close>

definition retryable :: "fetch_result \<Rightarrow> bool" where
  "retryable outcome =
     (case outcome of NetworkError e \<Rightarrow> True | Response r \<Rightarrow> status r \<in> set retryOnErrorCodes)"

text \<open>
  The body enrichment of a response completes (no exception escapes it), and the text
  it then gives the error: the parsed body, else the status text.
\<close>

definition enriches :: "response \<Rightarrow> bool" where
  "enriches r = (case json r of Throws e \<Rightarrow> False | Parsed v \<Rightarrow> True | Unparseable \<Rightarrow> True)"

definition errorText :: "response \<Rightarrow> string" where
  "errorText r = (case json r of Parsed v \<Rightarrow> v | Unparseable \<Rightarrow> statusText r | Throws e \<Rightarrow> statusText r)"

text \<open>The error value a failed attempt stands for in the caller's diagnostics.\<close>

definition attemptError :: "string \<Rightarrow> fetch_result \<Rightarrow> error" where
  "attemptError destinationUrl outcome =
     (case outcome of
        NetworkError e \<Rightarrow> Thrown e
      | Response r \<Rightarrow>
          (case json r of
             Parsed v \<Rightarrow> new_HttpError (status r) v destinationUrl
           | Unparseable \<Rightarrow> new_HttpError (status r) (statusText r) destinationUrl
           | Throws e \<Rightarrow> Thrown e))"

text \<open>The attempts of a call as they settled, and the errors of the failed ones, in order.\<close>

definition attemptOutcomes ::
  "(nat \<Rightarrow> fetch_result) \<Rightarrow> string \<Rightarrow> UploadStreamOptions option \<Rightarrow> fetch_result list" where
  "attemptOutcomes net destinationUrl options =
     map (crossFetch net (uploadStream_timeoutMonitor options))
       [0 ..< attempts (uploadStream net destinationUrl options)]"

definition history ::
  "(nat \<Rightarrow> fetch_result) \<Rightarrow> string \<Rightarrow> UploadStreamOptions option \<Rightarrow> error list" where
  "history net destinationUrl options =
     map (attemptError destinationUrl) (filter failed (attemptOutcomes net destinationUrl options))"

definition finalAttempt ::
  "(nat \<Rightarrow> fetch_result) \<Rightarrow> string \<Rightarrow> UploadStreamOptions option \<Rightarrow> fetch_result" where
  "finalAttempt net destinationUrl options =
     crossFetch net (uploadStream_timeoutMonitor options)
       (attempts (uploadStream net destinationUrl options) - 1)"

text \<open>The array \<open>errorPromises\<close> when the retrying fetch has settled.\<close>

definition recordedPromises ::
  "(nat \<Rightarrow> fetch_result) \<Rightarrow> string \<Rightarrow> UploadStreamOptions option \<Rightarrow> error promise list" where
  "recordedPromises net destinationUrl options =
     snd (snd (retryableFetch destinationUrl net (uploadStream_timeoutMonitor options)))"

subsection \<open>Sample inputs\<close>

text \<open>Responses, networks and a stalling monitor on which the theorems are exercised.\<close>

definition example_url :: string where
  "example_url = ''https://storage.example/artifact.tar''"
definition unavailable :: response where
  "unavailable = \<lparr>status = 503, statusText = ''Service Unavailable'', json = Unparseable\<rparr>"
definition notFound :: response where
  "notFound = \<lparr>status = 404, statusText = ''Not Found'', json = Parsed ''no such key''\<rparr>"
definition ok :: response where
  "ok = \<lparr>status = 200, statusText = ''OK'', json = Unparseable\<rparr>"
definition always_unavailable :: "nat \<Rightarrow> fetch_result" where
  "always_unavailable i = Response unavailable"
definition always_notFound :: "nat \<Rightarrow> fetch_result" where
  "always_notFound i = Response notFound"
definition always_ok :: "nat \<Rightarrow> fetch_result" where
  "always_ok i = Response ok"
definition unavailable_then_ok :: "nat \<Rightarrow> fetch_result" where
  "unavailable_then_ok i = (if i < 1 then Response unavailable else Response ok)"
definition unavailable_then_reset :: "nat \<Rightarrow> fetch_result" where
  "unavailable_then_reset i =
     (if i < 2 then Response unavailable else NetworkError (Failure ''ECONNRESET''))"
definition stalling_monitor :: StreamActivityMonitor where
  "stalling_monitor =
     \<lparr>stall = Some 0, phase = InFlight, reason = Some (Failure ''stream stalled'')\<rparr>"
definition stalling_options :: UploadStreamOptions where
  "stalling_options = \<lparr>retryDelay = None, activityMonitor = Some stalling_monitor\<rparr>"
definition forbidden :: response where
  "forbidden = \<lparr>status = 403, statusText = ''Forbidden'', json = Unparseable\<rparr>"
definition always_forbidden :: "nat \<Rightarrow> fetch_result" where
  "always_forbidden i = Response forbidden"
definition late_monitor :: StreamActivityMonitor where
  "late_monitor =
     \<lparr>stall = Some 0, phase = AfterCall, reason = Some (Failure ''stream stalled'')\<rparr>"
definition late_options :: UploadStreamOptions where
  "late_options = \<lparr>retryDelay = None, activityMonitor = Some late_monitor\<rparr>"
definition badGateway :: response where
  "badGateway = \<lparr>status = 502, statusText = ''Bad Gateway'',
                   json = Throws (Failure ''Cannot convert object to primitive value'')\<rparr>"
definition always_badGateway :: "nat \<Rightarrow> fetch_result" where
  "always_badGateway i = Response badGateway"
definition gone :: response where
  "gone = \<lparr>status = 410, statusText = ''Gone'',
             json = Throws (Failure ''Cannot convert object to primitive value'')\<rparr>"
definition always_gone :: "nat \<Rightarrow> fetch_result" where
  "always_gone i = Response gone"
definition badRequest :: response where
  "badRequest = \<lparr>status = 400, statusText = ''Bad Request'', json = Unparseable\<rparr>"
definition reset_then_badRequest :: "nat \<Rightarrow> fetch_result" where
  "reset_then_badRequest i =
     (if i < 1 then NetworkError (Failure ''ECONNRESET'') else Response badRequest)"

section \<open>Theorems\<close>

subsection \<open>The retry decision and one step of the loop\<close>

lemma set_retryOnErrorCodes: "set retryOnErrorCodes = {408, 429, 502, 503, 504}"
  by (simp add: retryOnErrorCodes_def)

lemma retryable_failed: "retryable out \<Longrightarrow> failed out"
  by (auto simp: retryable_def failed_def set_retryOnErrorCodes split: fetch_result.splits)

lemma errorPromise_attemptError: "errorPromise r u = Fulfilled (attemptError u (Response r))"
  by (simp add: errorPromise_def attemptError_def split: json_result.splits)

lemma retryOnFn_fst:
  "fst (retryOnFn u a out ps) = ps @ (if failed out then [Fulfilled (attemptError u out)] else [])"
  by (cases out)
     (auto simp: retryOnFn_def retryOn_def Let_def failed_def errorPromise_attemptError
        attemptError_def)

lemma retryOnFn_snd: "snd (retryOnFn u a out ps) \<longleftrightarrow> a < 2 \<and> retryable out"
  by (cases out)
     (auto simp: retryOnFn_def retryOn_def Let_def retryable_def set_retryOnErrorCodes)

lemma extendedFetch_step:
  "extendedFetch u net m a ps =
     (if a < 2 \<and> retryable (crossFetch net m a)
      then extendedFetch u net m (Suc a) (fst (retryOnFn u a (crossFetch net m a) ps))
      else (crossFetch net m a, Suc a, fst (retryOnFn u a (crossFetch net m a) ps)))"
  by (subst extendedFetch.simps) (simp add: Let_def retryOnFn_snd)

text \<open>
  A run of the loop from attempt \<open>a\<close>: it makes at least one call, settles as its last
  call did, every earlier call was one the policy retries, the last one is not, and the
  array has grown by one resolved promise per failed attempt, in attempt order.
\<close>

lemma extendedFetch_run:
  "extendedFetch u net m a ps = (res, n, qs) \<Longrightarrow>
     a < n \<and> res = crossFetch net m (n - 1) \<and>
     (\<forall>i. a \<le> i \<and> i < n - 1 \<longrightarrow> i < 2 \<and> retryable (crossFetch net m i)) \<and>
     \<not> (n - 1 < 2 \<and> retryable res) \<and>
     qs = ps @ map Fulfilled (map (attemptError u) (filter failed (map (crossFetch net m) [a ..< n])))"
proof (induction u net m a ps rule: extendedFetch.induct)
  case (1 u net m a ps)
  let ?out = "crossFetch net m a"
  let ?ps' = "fst (retryOnFn u a ?out ps)"
  show ?case
  proof (cases "a < 2 \<and> retryable ?out")
    case True
    then have go: "snd (retryOnFn u a ?out ps)" by (simp add: retryOnFn_snd)
    from True "1.prems" have rec: "extendedFetch u net m (Suc a) ?ps' = (res, n, qs)"
      by (simp add: extendedFetch_step [of u net m a])
    from "1.IH" [OF refl refl go rec]
    have n: "Suc a < n" and res: "res = crossFetch net m (n - 1)"
      and retried: "\<forall>i. Suc a \<le> i \<and> i < n - 1 \<longrightarrow> i < 2 \<and> retryable (crossFetch net m i)"
      and stopped: "\<not> (n - 1 < 2 \<and> retryable res)"
      and qs: "qs = ?ps' @ map Fulfilled (map (attemptError u)
                 (filter failed (map (crossFetch net m) [Suc a ..< n])))"
      by blast+
    have all: "\<forall>i. a \<le> i \<and> i < n - 1 \<longrightarrow> i < 2 \<and> retryable (crossFetch net m i)"
    proof (intro allI impI)
      fix i assume i: "a \<le> i \<and> i < n - 1"
      show "i < 2 \<and> retryable (crossFetch net m i)"
      proof (cases "i = a")
        case True with \<open>a < 2 \<and> retryable ?out\<close> show ?thesis by simp
      next
        case False with i retried show ?thesis by simp
      qed
    qed
    from n have upt: "[a ..< n] = a # [Suc a ..< n]" by (simp add: upt_conv_Cons)
    from True have "failed ?out" by (simp add: retryable_failed)
    with qs have "qs = ps @ map Fulfilled (map (attemptError u)
                 (filter failed (map (crossFetch net m) [a ..< n])))"
      by (simp add: upt retryOnFn_fst)
    with n res all stopped show ?thesis by simp
  next
    case False
    with "1.prems" have "res = ?out" "n = Suc a" "qs = ?ps'"
      by (auto simp: extendedFetch_step [of u net m a])
    with False show ?thesis by (auto simp: retryOnFn_fst)
  qed
qed

subsection \<open>A call of uploadStream\<close>

lemma Promise_all_Fulfilled: "Promise_all (map Fulfilled xs) = Fulfilled xs"
  by (induction xs) simp_all

lemma attempts_uploadStream:
  "attempts (uploadStream net u opts) =
     fst (snd (retryableFetch u net (uploadStream_timeoutMonitor opts)))"
  by (simp add: uploadStream_def Let_def split: prod.splits fetch_result.splits promise.splits)

lemma retryableFetch_run:
  assumes "retryableFetch u net (uploadStream_timeoutMonitor opts) = (res, n, qs)"
  shows "attempts (uploadStream net u opts) = n"
    and "0 < n" and "n \<le> 3"
    and "res = finalAttempt net u opts"
    and "qs = map Fulfilled (history net u opts)"
    and "\<forall>i < n - 1. retryable (crossFetch net (uploadStream_timeoutMonitor opts) i)"
    and "\<not> (n - 1 < 2 \<and> retryable res)"
proof -
  let ?m = "uploadStream_timeoutMonitor opts"
  from assms have run: "extendedFetch u net ?m 0 [] = (res, n, qs)"
    by (simp add: retryableFetch_def)
  note facts = extendedFetch_run [OF run]
  show n: "attempts (uploadStream net u opts) = n"
    using assms by (simp add: attempts_uploadStream)
  from facts show "0 < n" by simp
  from facts have retried: "\<forall>i. i < n - 1 \<longrightarrow> i < 2 \<and> retryable (crossFetch net ?m i)"
    by simp
  show "n \<le> 3"
  proof (rule ccontr)
    assume "\<not> n \<le> 3"
    then have "2 < n - 1" by simp
    with retried show False by blast
  qed
  from facts n show "res = finalAttempt net u opts" by (simp add: finalAttempt_def)
  from facts n show "qs = map Fulfilled (history net u opts)"
    by (simp add: history_def attemptOutcomes_def)
  from retried show "\<forall>i < n - 1. retryable (crossFetch net ?m i)" by simp
  from facts show "\<not> (n - 1 < 2 \<and> retryable res)" by blast
qed

lemma uploadStream_settles:
  assumes n: "attempts (uploadStream net u opts) = n"
  shows "uploadStream net u opts =
     (case finalAttempt net u opts of
        Response r \<Rightarrow>
          if 400 \<le> status r
          then \<lparr>settled = Rejected
                  (if 1 < length (history net u opts)
                   then AggregateError (history net u opts)
                          (decimal (length (history net u opts)) @ '' errors encountered during upload'')
                   else first_error (history net u opts)),
                attempts = n, awaited = True\<rparr>
          else \<lparr>settled = Fulfilled (), attempts = n, awaited = False\<rparr>
      | NetworkError e \<Rightarrow>
          \<lparr>settled = Rejected (Thrown
              (case signal_reason (uploadStream_timeoutMonitor opts)
                      (aborted (uploadStream_timeoutMonitor opts) (n - 1)) of
                 Some R \<Rightarrow> R | None \<Rightarrow> e)),
           attempts = n, awaited = False\<rparr>)"
proof -
  obtain res k qs where run: "retryableFetch u net (uploadStream_timeoutMonitor opts) = (res, k, qs)"
    by (metis prod_cases3)
  note facts = retryableFetch_run [OF run]
  from facts(1) n have k: "k = n" by simp
  from facts(4) have res: "finalAttempt net u opts = res" by simp
  from facts(5) have qs: "Promise_all qs = Fulfilled (history net u opts)"
    by (simp add: Promise_all_Fulfilled)
  show ?thesis
    unfolding res
    using run qs k
    by (simp add: uploadStream_def Let_def split: fetch_result.splits)
qed

lemma attempts_bounds:
  "0 < attempts (uploadStream net u opts)" "attempts (uploadStream net u opts) \<le> 3"
proof -
  obtain res k qs where run: "retryableFetch u net (uploadStream_timeoutMonitor opts) = (res, k, qs)"
    by (metis prod_cases3)
  from retryableFetch_run(1,2,3) [OF run]
  show "0 < attempts (uploadStream net u opts)" "attempts (uploadStream net u opts) \<le> 3"
    by simp_all
qed

lemma earlier_attempts_retryable:
  assumes "i < attempts (uploadStream net u opts) - 1"
  shows "retryable (crossFetch net (uploadStream_timeoutMonitor opts) i)"
proof -
  obtain res k qs where run: "retryableFetch u net (uploadStream_timeoutMonitor opts) = (res, k, qs)"
    by (metis prod_cases3)
  from retryableFetch_run(1,6) [OF run] assms show ?thesis by simp
qed

lemma final_attempt_stops:
  assumes "retryable (finalAttempt net u opts)"
  shows "attempts (uploadStream net u opts) = 3"
proof -
  obtain res k qs where run: "retryableFetch u net (uploadStream_timeoutMonitor opts) = (res, k, qs)"
    by (metis prod_cases3)
  from retryableFetch_run(1,2,3,4,7) [OF run] assms show ?thesis by auto
qed

lemma recorded_history:
  "recordedPromises net u opts = map Fulfilled (history net u opts)"
proof -
  obtain res k qs where run: "retryableFetch u net (uploadStream_timeoutMonitor opts) = (res, k, qs)"
    by (metis prod_cases3)
  from retryableFetch_run(5) [OF run] run show ?thesis by (simp add: recordedPromises_def)
qed

lemma all_attempts_failed:
  assumes "failed (finalAttempt net u opts)"
  shows "filter failed (attemptOutcomes net u opts) = attemptOutcomes net u opts"
proof -
  let ?n = "attempts (uploadStream net u opts)"
  let ?m = "uploadStream_timeoutMonitor opts"
  have "failed (crossFetch net ?m i)" if "i < ?n" for i
  proof (cases "i < ?n - 1")
    case True
    then show ?thesis by (simp add: earlier_attempts_retryable retryable_failed)
  next
    case False
    with that have "i = ?n - 1" by simp
    with assms show ?thesis by (simp add: finalAttempt_def)
  qed
  then show ?thesis by (simp add: attemptOutcomes_def)
qed

lemma history_of_failing_run:
  assumes "failed (finalAttempt net u opts)"
  shows "history net u opts =
     map (\<lambda>i. attemptError u (crossFetch net (uploadStream_timeoutMonitor opts) i))
       [0 ..< attempts (uploadStream net u opts)]"
  using all_attempts_failed [OF assms]
  by (simp add: history_def) (simp add: attemptOutcomes_def)

lemma attemptError_enriches:
  "enriches r \<Longrightarrow> attemptError u (Response r) = new_HttpError (status r) (errorText r) u"
  by (simp add: enriches_def attemptError_def errorText_def split: json_result.splits)



lemma attemptError_Throws:
  "json r = Throws e \<Longrightarrow> attemptError u (Response r) = Thrown e"
  by (simp add: attemptError_def)

lemma attemptError_not_composite: "attemptError u (Response r) \<noteq> AggregateError es msg"
  by (simp add: attemptError_def new_HttpError_def split: json_result.splits)

subsection \<open>Evaluation on the sample inputs\<close>

lemmas examples =
  example_url_def unavailable_def notFound_def ok_def badGateway_def badRequest_def
  always_unavailable_def always_notFound_def always_ok_def unavailable_then_ok_def
  unavailable_then_reset_def reset_then_badRequest_def stalling_monitor_def
  stalling_options_def late_monitor_def late_options_def always_badGateway_def gone_def
  always_gone_def forbidden_def always_forbidden_def

lemmas run_simps =
  uploadStream_def retryableFetch_def extendedFetch_step crossFetch_def aborted_def
  fired_def signal_reason_def uploadStream_timeoutMonitor_def retryOnFn_fst retryable_def failed_def
  attemptError_def new_HttpError_def set_retryOnErrorCodes first_error_def

lemma decimal_digit: "n < 10 \<Longrightarrow> decimal n = [digit n]"
  by (simp add: decimal.simps)

lemmas text_simps = new_HttpError_def errorText_def decimal.simps digit_def

section \<open>The claims\<close>

text \<open>
  C1. With the retry limit of 2, the retry decision is true exactly when the attempt
  index is below 2 and a network error is present or the response status is one of
  408, 429, 502, 503, 504. In particular any other status from 400 on yields no retry
  even when attempts remain, and at index 2 a 503 response is not retried.
\<close>

theorem retryOn_decision:
  "(snd (retryOn u attempt 2 err resp ps) \<longleftrightarrow>
      attempt < 2 \<and>
      (err \<noteq> None \<or> (\<exists>r. resp = Some r \<and> status r \<in> {408, 429, 502, 503, 504}))) \<and>
   (400 \<le> status r \<and> status r \<notin> {408, 429, 502, 503, 504} \<longrightarrow>
      \<not> snd (retryOn u attempt 2 None (Some r) ps)) \<and>
   (status r = 503 \<longrightarrow> \<not> snd (retryOn u 2 2 None (Some r) ps))"
  by (cases resp) (auto simp: retryOn_def Let_def set_retryOnErrorCodes)

text \<open>
  A 503 at index 0 is retried, a 404 at index 0 is not, a 503 at index 2 is not.
\<close>

theorem retryOn_decision_witness:
  "snd (retryOn example_url 0 2 None (Some unavailable) []) \<and>
   \<not> snd (retryOn example_url 0 2 None (Some notFound) []) \<and>
   \<not> snd (retryOn example_url 2 2 None (Some unavailable) [])"
  using retryOn_decision [of example_url 0 None "Some unavailable" "[]" notFound]
    retryOn_decision [of example_url 0 None "Some unavailable" "[]" unavailable]
  by (simp add: unavailable_def notFound_def)

text \<open>
  C2. When the last attempt of a call ends in a response with an error status, the
  recorded promises have been awaited and hold the errors of the attempts in attempt
  order, one per attempt. If exactly one error was recorded the call rejects with that
  error itself; if more than one, with an \<open>AggregateError\<close> over the whole list whose
  message gives their number.
\<close>

theorem consolidation_rule:
  assumes final: "finalAttempt net u opts = Response r" and status: "400 \<le> status r"
  shows "awaited (uploadStream net u opts) \<and>
    recordedPromises net u opts = map Fulfilled (history net u opts) \<and>
    length (history net u opts) = attempts (uploadStream net u opts) \<and>
    (\<forall>e. history net u opts = [e] \<longrightarrow> settled (uploadStream net u opts) = Rejected e) \<and>
    (1 < length (history net u opts) \<longrightarrow>
       settled (uploadStream net u opts) =
         Rejected (AggregateError (history net u opts)
           (decimal (length (history net u opts)) @ '' errors encountered during upload'')))"
proof -
  from final status have "failed (finalAttempt net u opts)" by (simp add: failed_def)
  then have len: "length (history net u opts) = attempts (uploadStream net u opts)"
    by (simp add: history_def all_attempts_failed) (simp add: attemptOutcomes_def)
  from final status uploadStream_settles [OF refl, of net u opts]
  have run: "uploadStream net u opts =
      \<lparr>settled = Rejected
          (if 1 < length (history net u opts)
           then AggregateError (history net u opts)
                  (decimal (length (history net u opts)) @ '' errors encountered during upload'')
           else first_error (history net u opts)),
       attempts = attempts (uploadStream net u opts), awaited = True\<rparr>"
    by simp
  have "awaited (uploadStream net u opts)" by (subst run) simp
  moreover have "\<forall>e. history net u opts = [e] \<longrightarrow> settled (uploadStream net u opts) = Rejected e"
    by (subst run) (simp add: first_error_def)
  moreover have "1 < length (history net u opts) \<longrightarrow>
       settled (uploadStream net u opts) =
         Rejected (AggregateError (history net u opts)
           (decimal (length (history net u opts)) @ '' errors encountered during upload''))"
    by (subst run) simp
  ultimately show ?thesis using len recorded_history by blast
qed

text \<open>
  A network error followed by a 400 is rejected with the composite of both, in that
  order; a single 404 with the \<open>HttpError\<close> itself.
\<close>

theorem consolidation_rule_witness:
  "settled (uploadStream reset_then_badRequest example_url None) =
     Rejected (AggregateError
       [Thrown (Failure ''ECONNRESET''),
        HttpError 400 ''Bad Request'' example_url ''400: Bad Request'']
       ''2 errors encountered during upload'') \<and>
   settled (uploadStream always_notFound example_url None) =
     Rejected (HttpError 404 ''no such key'' example_url ''404: no such key'')"
proof -
  have a2: "attempts (uploadStream reset_then_badRequest example_url None) = 2"
    by (simp add: run_simps examples)
  have f2: "finalAttempt reset_then_badRequest example_url None = Response badRequest"
    by (simp add: finalAttempt_def a2) (simp add: run_simps examples)
  have s2: "400 \<le> status badRequest" by (simp add: badRequest_def)
  have h2: "history reset_then_badRequest example_url None =
      [Thrown (Failure ''ECONNRESET''),
       HttpError 400 ''Bad Request'' example_url ''400: Bad Request'']"
    by (simp add: history_def attemptOutcomes_def a2 upt_rec)
       (simp add: run_simps examples text_simps)
  have a1: "attempts (uploadStream always_notFound example_url None) = 1"
    by (simp add: run_simps examples)
  have f1: "finalAttempt always_notFound example_url None = Response notFound"
    by (simp add: finalAttempt_def always_notFound_def crossFetch_def aborted_def
          uploadStream_timeoutMonitor_def)
  have s1: "400 \<le> status notFound" by (simp add: notFound_def)
  have h1: "history always_notFound example_url None =
      [HttpError 404 ''no such key'' example_url ''404: no such key'']"
    by (simp add: history_def attemptOutcomes_def a1)
       (simp add: run_simps examples text_simps)
  from consolidation_rule [OF f2 s2] consolidation_rule [OF f1 s1] h1 h2
  show ?thesis by (simp add: text_simps)
qed




text \<open>
  C4. The call resolves exactly when the last attempt's response has a status below 400
  and the signal has not fired; on success the recorded promises are not awaited, and
  the resolved value carries nothing of them. (A signal that fires once the last call
  has returned such a response finds the promise resolved already.)
\<close>

theorem success_iff:
  "(settled (uploadStream net u opts) = Fulfilled () \<longleftrightarrow>
      (\<exists>r. net (attempts (uploadStream net u opts) - 1) = Response r \<and> status r < 400) \<and>
      \<not> aborted (uploadStream_timeoutMonitor opts) (attempts (uploadStream net u opts) - 1)) \<and>
   (settled (uploadStream net u opts) = Fulfilled () \<longrightarrow> \<not> awaited (uploadStream net u opts))"
proof -
  let ?U = "uploadStream net u opts"
  let ?n = "attempts ?U"
  let ?m = "uploadStream_timeoutMonitor opts"
  note run = uploadStream_settles [OF refl, of net u opts]
  have final: "finalAttempt net u opts = (if aborted ?m (?n - 1) then NetworkError AbortError else net (?n - 1))"
    by (simp add: finalAttempt_def crossFetch_def)
  show ?thesis
  proof (cases "finalAttempt net u opts")
    case (NetworkError e)
    with run have U: "?U = \<lparr>settled = Rejected (Thrown
              (case signal_reason ?m (aborted ?m (?n - 1)) of Some R \<Rightarrow> R | None \<Rightarrow> e)),
           attempts = ?n, awaited = False\<rparr>" by simp
    have "settled ?U \<noteq> Fulfilled ()" by (subst U) simp
    moreover from NetworkError final
    have "\<not> ((\<exists>r. net (?n - 1) = Response r \<and> status r < 400) \<and> \<not> aborted ?m (?n - 1))"
      by (auto split: if_splits)
    ultimately show ?thesis by blast
  next
    case (Response r)
    with final have net: "\<not> aborted ?m (?n - 1)" "net (?n - 1) = Response r"
      by (auto split: if_splits)
    show ?thesis
    proof (cases "400 \<le> status r")
      case True
      with Response run have U: "?U = \<lparr>settled = Rejected
                  (if 1 < length (history net u opts)
                   then AggregateError (history net u opts)
                          (decimal (length (history net u opts)) @ '' errors encountered during upload'')
                   else first_error (history net u opts)),
                attempts = ?n, awaited = True\<rparr>" by simp
      have "settled ?U \<noteq> Fulfilled ()" by (subst U) simp
      with True net show ?thesis by auto
    next
      case False
      with Response run have U: "?U = \<lparr>settled = Fulfilled (), attempts = ?n, awaited = False\<rparr>"
        by simp
      have "settled ?U = Fulfilled ()" "\<not> awaited ?U" by (subst U, simp)+
      with False net show ?thesis by auto
    qed
  qed
qed

text \<open>
  A 503 followed by a 200 resolves after two attempts without awaiting the recorded
  promise; a call whose monitor stalls does not resolve though the network would answer 200.
\<close>

theorem success_iff_witness:
  "settled (uploadStream unavailable_then_ok example_url None) = Fulfilled () \<and>
   \<not> awaited (uploadStream unavailable_then_ok example_url None) \<and>
   attempts (uploadStream unavailable_then_ok example_url None) = 2 \<and>
   settled (uploadStream always_ok example_url (Some stalling_options)) \<noteq> Fulfilled ()"
proof -
  have a: "attempts (uploadStream unavailable_then_ok example_url None) = 2"
    by (simp add: run_simps examples)
  have final: "(\<exists>r. unavailable_then_ok
                  (attempts (uploadStream unavailable_then_ok example_url None) - 1) = Response r \<and>
                status r < 400) \<and>
      \<not> aborted (uploadStream_timeoutMonitor None)
          (attempts (uploadStream unavailable_then_ok example_url None) - 1)"
    by (simp add: a unavailable_then_ok_def ok_def aborted_def uploadStream_timeoutMonitor_def)
  have ab: "aborted (uploadStream_timeoutMonitor (Some stalling_options))
              (attempts (uploadStream always_ok example_url (Some stalling_options)) - 1)"
    by (simp add: aborted_def uploadStream_timeoutMonitor_def stalling_options_def
          stalling_monitor_def)
  from success_iff [of unavailable_then_ok example_url None] final a
    success_iff [of always_ok example_url "Some stalling_options"] ab
  show ?thesis by blast
qed

text \<open>
  C5. Two 503 responses followed by a network error exhaust the retry budget. Three
  errors have been recorded, yet the call rejects with the last network error alone and
  awaits none of the recorded promises (the \<open>catch\<close> of line 154 does not consolidate,
  the branch of line 141 does).
\<close>

theorem final_network_error_drops_history:
  "uploadStream unavailable_then_reset example_url None =
     \<lparr>settled = Rejected (Thrown (Failure ''ECONNRESET'')), attempts = 3, awaited = False\<rparr> \<and>
   recordedPromises unavailable_then_reset example_url None =
     [Fulfilled (HttpError 503 ''Service Unavailable'' example_url ''503: Service Unavailable''),
      Fulfilled (HttpError 503 ''Service Unavailable'' example_url ''503: Service Unavailable''),
      Fulfilled (Thrown (Failure ''ECONNRESET''))]"
  by (simp add: recordedPromises_def run_simps examples text_simps)

text \<open>
  C6, as stated, asks for three \<open>HttpError\<close>s. Three 502 responses whose body enrichment
  ends in the \<open>catch\<close> of line 89 are recorded as the three exceptions: the composite
  holds no \<open>HttpError\<close>.
\<close>

theorem three_retryable_responses_counterexample:
  "status badGateway \<in> set retryOnErrorCodes \<and>
   attempts (uploadStream always_badGateway example_url None) = 3 \<and>
   settled (uploadStream always_badGateway example_url None) =
     Rejected (AggregateError
       [Thrown (Failure ''Cannot convert object to primitive value''),
        Thrown (Failure ''Cannot convert object to primitive value''),
        Thrown (Failure ''Cannot convert object to primitive value'')]
       ''3 errors encountered during upload'')"
  by (simp add: run_simps examples text_simps)

text \<open>
  C6, amended. When the first three attempts each return a response with a retryable
  status, the call makes exactly three attempts and rejects with an \<open>AggregateError\<close> of
  three errors in attempt order, whose message gives their number. Each of them is the
  \<open>HttpError\<close> with the status of its response when the body enrichment of that response
  completed, and the exception itself when one escaped the enrichment.
\<close>

theorem three_retryable_responses:
  fixes r :: "nat \<Rightarrow> response"
  assumes responds: "\<And>i. i < 3 \<Longrightarrow> crossFetch net (uploadStream_timeoutMonitor opts) i = Response (r i)"
    and retryable_status: "\<And>i. i < 3 \<Longrightarrow> status (r i) \<in> set retryOnErrorCodes"
  shows "attempts (uploadStream net u opts) = 3 \<and>
         settled (uploadStream net u opts) =
           Rejected (AggregateError
             [attemptError u (Response (r 0)),
              attemptError u (Response (r 1)),
              attemptError u (Response (r 2))]
             ''3 errors encountered during upload'') \<and>
         (\<forall>i. enriches (r i) \<longrightarrow>
            attemptError u (Response (r i)) = new_HttpError (status (r i)) (errorText (r i)) u) \<and>
         (\<forall>i e. json (r i) = Throws e \<longrightarrow> attemptError u (Response (r i)) = Thrown e)"
proof -
  let ?U = "uploadStream net u opts"
  let ?n = "attempts ?U"
  from attempts_bounds [of net u opts] have "?n - 1 < 3" by simp
  then have final: "finalAttempt net u opts = Response (r (?n - 1))"
    and st: "status (r (?n - 1)) \<in> set retryOnErrorCodes"
    by (simp_all add: finalAttempt_def responds retryable_status)
  then have "retryable (finalAttempt net u opts)" by (simp add: retryable_def)
  then have three: "?n = 3" by (rule final_attempt_stops)
  from final st have "failed (finalAttempt net u opts)"
    by (simp add: retryable_failed retryable_def)
  then have "history net u opts =
      map (\<lambda>i. attemptError u (crossFetch net (uploadStream_timeoutMonitor opts) i)) [0 ..< 3]"
    using three by (simp add: history_of_failing_run)
  also have "[0 ..< 3] = [0, 1, (2::nat)]" by (simp add: upt_rec)
  finally have hist: "history net u opts =
     [attemptError u (Response (r 0)),
      attemptError u (Response (r 1)),
      attemptError u (Response (r 2))]"
    by (simp add: responds)
  then have len: "length (history net u opts) = 3" by simp
  from st have "400 \<le> status (r (?n - 1))" by (auto simp: set_retryOnErrorCodes)
  with final uploadStream_settles [OF refl, of net u opts]
  have run: "?U = \<lparr>settled = Rejected
                  (if 1 < length (history net u opts)
                   then AggregateError (history net u opts)
                          (decimal (length (history net u opts)) @ '' errors encountered during upload'')
                   else first_error (history net u opts)),
                attempts = ?n, awaited = True\<rparr>"
    by simp
  have "settled ?U = Rejected (AggregateError (history net u opts)
          (decimal 3 @ '' errors encountered during upload''))"
    by (subst run) (simp add: len)
  then have "settled ?U = Rejected (AggregateError
             [attemptError u (Response (r 0)),
              attemptError u (Response (r 1)),
              attemptError u (Response (r 2))]
             ''3 errors encountered during upload'')"
    by (simp add: hist decimal_digit digit_def)
  with three show ?thesis by (simp add: attemptError_enriches attemptError_Throws)
qed

text \<open>
  Three 503 responses: three attempts, and a composite of three \<open>HttpError\<close>s with status
  503.
\<close>

theorem three_retryable_responses_witness:
  "attempts (uploadStream always_unavailable example_url None) = 3 \<and>
   settled (uploadStream always_unavailable example_url None) =
     Rejected (AggregateError
       [HttpError 503 ''Service Unavailable'' example_url ''503: Service Unavailable'',
        HttpError 503 ''Service Unavailable'' example_url ''503: Service Unavailable'',
        HttpError 503 ''Service Unavailable'' example_url ''503: Service Unavailable'']
       ''3 errors encountered during upload'')"
proof -
  have responds: "crossFetch always_unavailable (uploadStream_timeoutMonitor None) i =
      Response unavailable" for i
    by (simp add: crossFetch_def aborted_def uploadStream_timeoutMonitor_def
          always_unavailable_def)
  have st: "status unavailable \<in> set retryOnErrorCodes"
    by (simp add: unavailable_def set_retryOnErrorCodes)
  have en: "enriches unavailable" by (simp add: enriches_def unavailable_def)
  from three_retryable_responses
         [of always_unavailable None "\<lambda>i. unavailable" example_url, OF responds st] en
  show ?thesis by (simp add: text_simps unavailable_def)
qed

text \<open>
  C7, as stated, asks for the \<open>HttpError\<close> of the response. A 410 whose body enrichment ends
  in the \<open>catch\<close> of line 89 is rejected, after one attempt, with the exception.
\<close>

theorem non_retryable_status_fails_once_counterexample:
  "400 \<le> status gone \<and> status gone \<notin> set retryOnErrorCodes \<and>
   attempts (uploadStream always_gone example_url None) = 1 \<and>
   settled (uploadStream always_gone example_url None) =
     Rejected (Thrown (Failure ''Cannot convert object to primitive value''))"
  by (simp add: run_simps examples text_simps)

text \<open>
  C7, amended. When every attempt returns a response with an error status outside the
  retryable set, the call makes exactly one attempt, retries zero times and rejects with
  the single error recorded for that response, not with a composite. That error is the
  \<open>HttpError\<close> of the response when its body enrichment completed, and the exception itself
  when one escaped the enrichment.
\<close>

theorem non_retryable_status_fails_once:
  fixes r :: "nat \<Rightarrow> response"
  assumes responds: "\<And>i. crossFetch net (uploadStream_timeoutMonitor opts) i = Response (r i)"
    and error_status: "\<And>i. 400 \<le> status (r i)"
    and not_retryable: "\<And>i. status (r i) \<notin> set retryOnErrorCodes"
  shows "attempts (uploadStream net u opts) = 1 \<and>
         settled (uploadStream net u opts) = Rejected (attemptError u (Response (r 0))) \<and>
         (\<forall>es msg. attemptError u (Response (r 0)) \<noteq> AggregateError es msg) \<and>
         (enriches (r 0) \<longrightarrow>
            attemptError u (Response (r 0)) = new_HttpError (status (r 0)) (errorText (r 0)) u) \<and>
         (\<forall>e. json (r 0) = Throws e \<longrightarrow> attemptError u (Response (r 0)) = Thrown e)"
proof -
  let ?U = "uploadStream net u opts"
  let ?n = "attempts ?U"
  have one: "?n = 1"
  proof (rule ccontr)
    assume "?n \<noteq> 1"
    with attempts_bounds(1) [of net u opts] have "0 < ?n - 1" by simp
    then have "retryable (crossFetch net (uploadStream_timeoutMonitor opts) 0)"
      by (rule earlier_attempts_retryable)
    with responds not_retryable show False by (simp add: retryable_def)
  qed
  then have final: "finalAttempt net u opts = Response (r 0)"
    by (simp add: finalAttempt_def responds)
  with error_status have "failed (finalAttempt net u opts)" by (simp add: failed_def)
  then have hist: "history net u opts = [attemptError u (Response (r 0))]"
    using one by (simp add: history_of_failing_run responds)
  from final error_status hist uploadStream_settles [OF refl, of net u opts]
  have run: "?U = \<lparr>settled = Rejected (attemptError u (Response (r 0))),
          attempts = ?n, awaited = True\<rparr>"
    by (simp add: first_error_def)
  have "settled ?U = Rejected (attemptError u (Response (r 0)))"
    by (subst run) simp
  with one show ?thesis
    by (simp add: attemptError_enriches attemptError_Throws attemptError_not_composite)
qed

text \<open>
  A 404 whose body parses: one attempt, rejected with the \<open>HttpError\<close> carrying the parsed
  text.
\<close>

theorem non_retryable_status_fails_once_witness:
  "attempts (uploadStream always_notFound example_url None) = 1 \<and>
   settled (uploadStream always_notFound example_url None) =
     Rejected (HttpError 404 ''no such key'' example_url ''404: no such key'')"
proof -
  have responds: "crossFetch always_notFound (uploadStream_timeoutMonitor None) i =
      Response notFound" for i
    by (simp add: crossFetch_def aborted_def uploadStream_timeoutMonitor_def
          always_notFound_def)
  have st: "400 \<le> status notFound" "status notFound \<notin> set retryOnErrorCodes"
    by (simp_all add: notFound_def set_retryOnErrorCodes)
  have en: "enriches notFound" by (simp add: enriches_def notFound_def)
  from non_retryable_status_fails_once
         [of always_notFound None "\<lambda>i. notFound" example_url, OF responds st] en
  show ?thesis by (simp add: text_simps notFound_def)
qed

text \<open>
  C8. For every natural number \<open>n\<close> the production delay function gives
  \<open>(n + 1) * 500\<close> milliseconds; on the attempt indices 0, 1, 2 it gives 500, 1000, 1500.
\<close>

theorem geometricRetry_value:
  "geometricRetry n = (n + 1) * 500 \<and> map geometricRetry [0, 1, 2] = [500, 1000, 1500]"
  by (simp add: geometricRetry_def)

text \<open>
  C9. When the options, or their \<open>retryDelay\<close>, are omitted, the delay function is
  \<open>identity\<close>, which returns the attempt index and is not the geometric function; a
  delay function the caller passes is used as it is.
\<close>

theorem default_retryDelay:
  "uploadStream_retryDelay None = identity \<and>
   uploadStream_retryDelay (Some \<lparr>retryDelay = None, activityMonitor = mon\<rparr>) = identity \<and>
   uploadStream_retryDelay (Some \<lparr>retryDelay = Some f, activityMonitor = mon\<rparr>) = f \<and>
   (\<forall>n. identity n = n) \<and>
   identity \<noteq> geometricRetry \<and>
   (uploadStream_retryDelay options = geometricRetry \<longrightarrow>
      (\<exists>opts. options = Some opts \<and> retryDelay opts = Some geometricRetry))"
proof -
  have "identity 0 \<noteq> geometricRetry 0" by (simp add: identity_def geometricRetry_def)
  then have differ: "identity \<noteq> geometricRetry" by metis
  then have "uploadStream_retryDelay options = geometricRetry \<longrightarrow>
      (\<exists>opts. options = Some opts \<and> retryDelay opts = Some geometricRetry)"
    by (auto simp: uploadStream_retryDelay_def split: option.splits)
  with differ show ?thesis by (simp add: uploadStream_retryDelay_def identity_def)
qed

text \<open>
  Without options the waits asked for at the indices 0 and 1 are 0 and 1 milliseconds,
  where the geometric function gives 500 and 1000.
\<close>

theorem default_retryDelay_witness:
  "map (uploadStream_retryDelay None) [0, 1] = [0, 1] \<and>
   map (uploadStream_retryDelay
          (Some \<lparr>retryDelay = Some geometricRetry, activityMonitor = None\<rparr>)) [0, 1] =
     [500, 1000]"
  using default_retryDelay [of None geometricRetry None]
  by (simp add: geometricRetry_def)

text \<open>
  C10. The promise recorded for an error response always resolves: with an \<open>HttpError\<close>
  whose text is the parsed body, or the status text when parsing fails, or with the
  exception that escaped the enrichment. So every promise a call has recorded is
  resolved, and \<open>Promise.all\<close> over them resolves too.
\<close>

theorem error_promises_resolve:
  "(json r = Parsed v \<longrightarrow> errorPromise r u = Fulfilled (new_HttpError (status r) v u)) \<and>
   (json r = Unparseable \<longrightarrow>
      errorPromise r u = Fulfilled (new_HttpError (status r) (statusText r) u)) \<and>
   (json r = Throws e \<longrightarrow> errorPromise r u = Fulfilled (Thrown e)) \<and>
   (\<exists>x. errorPromise r u = Fulfilled x) \<and>
   (\<forall>p \<in> set (recordedPromises net u opts). \<exists>x. p = Fulfilled x) \<and>
   (\<exists>errors. Promise_all (recordedPromises net u opts) = Fulfilled errors)"
proof -
  have "\<exists>x. errorPromise r u = Fulfilled x"
    by (simp add: errorPromise_def split: json_result.splits)
  moreover have "\<forall>p \<in> set (recordedPromises net u opts). \<exists>x. p = Fulfilled x"
    by (auto simp: recorded_history)
  moreover have "\<exists>errors. Promise_all (recordedPromises net u opts) = Fulfilled errors"
    by (simp add: recorded_history Promise_all_Fulfilled)
  ultimately show ?thesis by (simp add: errorPromise_def)
qed

theorem error_promises_resolve_witness:
  "errorPromise notFound example_url =
     Fulfilled (HttpError 404 ''no such key'' example_url ''404: no such key'') \<and>
   errorPromise unavailable example_url =
     Fulfilled (HttpError 503 ''Service Unavailable'' example_url ''503: Service Unavailable'') \<and>
   errorPromise badGateway example_url =
     Fulfilled (Thrown (Failure ''Cannot convert object to primitive value'')) \<and>
   (\<exists>errors. Promise_all (recordedPromises unavailable_then_reset example_url None) =
      Fulfilled errors)"
  using
    error_promises_resolve [of notFound "''no such key''" example_url _ unavailable_then_reset None]
    error_promises_resolve [of unavailable _ example_url _ unavailable_then_reset None]
    error_promises_resolve [of badGateway _ example_url
       "Failure ''Cannot convert object to primitive value''" unavailable_then_reset None]
  by (simp add: notFound_def unavailable_def badGateway_def text_simps)

end
